theory Spec2Isabelle
  imports Main "HOL-Library.Sublist"
begin

section \<open>ProTeX (Python version): a shallow embedding of \<^verbatim>\<open>protex.py\<close>\<close>

text \<open>
  The program reads source files line by line, recognises the DAO prologue markers and
  prints LaTeX. The embedding keeps the program's shape:
  \<^item> a Python \<^verbatim>\<open>str\<close> is a \<open>string\<close>; a \<open>char\<close> stands for a code point below 256;
  \<^item> standard output is the list of the arguments of the \<^verbatim>\<open>print\<close> calls, in order
    (every \<^verbatim>\<open>print\<close> ends its argument with a newline, which the list leaves implicit);
  \<^item> the \<^verbatim>\<open>state\<close> dictionary built in \<^verbatim>\<open>main\<close> is a record that every function takes
    and returns;
  \<^item> an exception is the left injection of a sum type.
\<close>

subsection \<open>Python string operations\<close>

text \<open>A backslash and a newline cannot be written inside a string literal.\<close>

abbreviation BS :: string where
  "BS \<equiv> [CHR 0x5C]"

abbreviation NL :: string where
  "NL \<equiv> [CHR 0x0A]"

text \<open>
  \<^verbatim>\<open>str.isspace\<close> on the code points below 256: tab, line feed, vertical tab, form feed,
  carriage return, the four separators 0x1C to 0x1F, space, NEL and the no-break space.
\<close>

definition whitespace :: string where
  "whitespace =
    [CHR 0x09, CHR 0x0A, CHR 0x0B, CHR 0x0C, CHR 0x0D, CHR 0x1C, CHR 0x1D, CHR 0x1E,
     CHR 0x1F, CHR 0x20, CHR 0x85, CHR 0xA0]"

definition is_space :: "char \<Rightarrow> bool" where
  "is_space c \<longleftrightarrow> c \<in> set whitespace"

text \<open>\<^verbatim>\<open>s.lstrip()\<close>, \<^verbatim>\<open>s.rstrip()\<close>, \<^verbatim>\<open>s.strip()\<close> and \<^verbatim>\<open>s.rstrip("\n")\<close>.\<close>

definition lstrip :: "string \<Rightarrow> string" where
  "lstrip s = dropWhile is_space s"

definition rstrip :: "string \<Rightarrow> string" where
  "rstrip s = rev (dropWhile is_space (rev s))"

definition strip :: "string \<Rightarrow> string" where
  "strip s = lstrip (rstrip s)"

definition rstrip_nl :: "string \<Rightarrow> string" where
  "rstrip_nl s = rev (dropWhile (\<lambda>c. c = CHR 0x0A) (rev s))"

text \<open>
  \<^verbatim>\<open>s.split(maxsplit=n)\<close>: the flds between runs of whitespace; after \<open>n\<close> splits the
  rest of the string, without its leading whitespace, is the last field.
\<close>

fun split_ws :: "nat \<Rightarrow> string \<Rightarrow> string list" where
  "split_ws 0 s = (let s1 = dropWhile is_space s in if s1 = [] then [] else [s1])"
| "split_ws (Suc n) s =
     (let s1 = dropWhile is_space s
      in if s1 = [] then []
         else takeWhile (\<lambda>c. \<not> is_space c) s1 # split_ws n (dropWhile (\<lambda>c. \<not> is_space c) s1))"

text \<open>\<^verbatim>\<open>s.split()\<close> has no limit: no string has more flds than characters.\<close>

definition split_all :: "string \<Rightarrow> string list" where
  "split_all s = split_ws (length s) s"

text \<open>\<^verbatim>\<open>s.split(',')\<close>: one more part than there are separators, empty parts kept.\<close>

fun split_on :: "char \<Rightarrow> string \<Rightarrow> string list" where
  "split_on c [] = [[]]"
| "split_on c (x # xs) =
     (if x = c then [] # split_on c xs
      else (case split_on c xs of [] \<Rightarrow> [[x]] | y # ys \<Rightarrow> (x # y) # ys))"

text \<open>\<^verbatim>\<open>" ".join(xs)\<close>.\<close>

fun join_sp :: "string list \<Rightarrow> string" where
  "join_sp [] = []"
| "join_sp [x] = x"
| "join_sp (x # y # ys) = x @ '' '' @ join_sp (y # ys)"

text \<open>\<^verbatim>\<open>pat in s\<close>: \<open>pat\<close> occurs in \<open>s\<close> as a contiguous substring.\<close>

fun str_in :: "string \<Rightarrow> string \<Rightarrow> bool" where
  "str_in pat [] = (pat = [])"
| "str_in pat (c # cs) = (prefix pat (c # cs) \<or> str_in pat cs)"

text \<open>
  \<^verbatim>\<open>s.replace(old, new)\<close>: the occurrences of \<open>old\<close> are replaced from the left, without
  overlap; an empty \<open>old\<close> matches before every character and at the end.
\<close>

fun replace_str :: "string \<Rightarrow> string \<Rightarrow> string \<Rightarrow> string" where
  "replace_str old new [] = (if old = [] then new else [])"
| "replace_str old new (c # cs) =
     (if old = [] then new @ c # replace_str old new cs
      else if prefix old (c # cs) then new @ replace_str old new (drop (length old) (c # cs))
      else c # replace_str old new cs)"


subsection \<open>Exceptions\<close>

datatype error = ValueError string | KeyError string | TypeError string | IndexError string

text \<open>
  \<^verbatim>\<open>template % args\<close> for templates whose conversions are \<^verbatim>\<open>%s\<close> (and \<^verbatim>\<open>%%\<close>), the only
  ones the program's templates hold. Too few or too many arguments raise \<^verbatim>\<open>TypeError\<close>.
\<close>

fun py_format :: "string \<Rightarrow> string list \<Rightarrow> error + string" where
  "py_format [] [] = Inr []"
| "py_format [] (a # as) = Inl (TypeError ''not all arguments converted during string formatting'')"
| "py_format [c] args =
     (if c = CHR ''%'' then Inl (ValueError ''incomplete format'')
      else map_sum id ((#) c) (py_format [] args))"
| "py_format (c # d # ds) args =
     (if c \<noteq> CHR ''%'' then map_sum id ((#) c) (py_format (d # ds) args)
      else if d = CHR ''%'' then map_sum id ((#) c) (py_format ds args)
      else if d = CHR ''s'' then
        (case args of
           [] \<Rightarrow> Inl (TypeError ''not enough arguments for format string'')
         | a # as \<Rightarrow> map_sum id ((@) a) (py_format ds as))
      else Inl (ValueError ''unsupported format character''))"

subsection \<open>Language profiles and marker tokens\<close>

text \<open>
  \<^verbatim>\<open>language_info\<close>: a dictionary from the language code to a dictionary with the keys
  \<^verbatim>\<open>name\<close>, \<^verbatim>\<open>comment\<close> and \<^verbatim>\<open>lang\<close>; both are association lists in the order of the source.
\<close>

definition language_info :: "(string \<times> (string \<times> string) list) list" where
  "language_info =
    [(''F'', [(''name'', ''Fortran90''), (''comment'', ''!''), (''lang'', ''fortran'')]),
     (''A'', [(''name'', ''Ada''), (''comment'', ''--''), (''lang'', ''ada'')]),
     (''C'', [(''name'', ''C++''), (''comment'', ''//''), (''lang'', ''c'')]),
     (''S'', [(''name'', ''Shell''), (''comment'', ''#''), (''lang'', ''bash'')]),
     (''G'', [(''name'', ''GrADS''), (''comment'', ''*''), (''lang'', ''bash'')]),
     (''P'', [(''name'', ''Python''), (''comment'', ''#''), (''lang'', ''python'')])]"

definition get_language_info :: "string \<Rightarrow> string \<Rightarrow> error + string" where
  "get_language_info code info_type =
    (case map_of language_info code of
       None \<Rightarrow> Inl (ValueError (''Invalid language code: '' @ [CHR 0x27] @ code @ [CHR 0x27]))
     | Some entry \<Rightarrow>
        if info_type \<notin> set [''comment'', ''lang'', ''name'']
        then Inl (ValueError (''Invalid info_type: '' @ [CHR 0x27] @ info_type @ [CHR 0x27] @
               '', must be '' @ [CHR 0x27] @ ''comment'' @ [CHR 0x27] @ '', '' @
               [CHR 0x27] @ ''lang'' @ [CHR 0x27] @ '' or '' @ [CHR 0x27] @ ''name'' @ [CHR 0x27]))
        else (case map_of entry info_type of
                None \<Rightarrow> Inl (KeyError info_type)
              | Some v \<Rightarrow> Inr v))"

text \<open>The dictionary that \<^verbatim>\<open>get_language_tokens\<close> returns, one field for each key.\<close>

record tokens =
  comment :: string
  bop :: string
  eop :: string
  boi :: string
  eoi :: string
  boc :: string
  eoc :: string
  boe :: string
  eoe :: string
  bor :: string
  eor :: string
  bopi :: string
  eopi :: string
  iiro :: string
  cro :: string
  program :: string

definition get_language_tokens :: "string \<Rightarrow> error + tokens" where
  "get_language_tokens lang =
    (case get_language_info lang ''comment'' of
       Inl e \<Rightarrow> Inl e
     | Inr symbol \<Rightarrow> Inr
        \<lparr>comment = symbol,
         bop = symbol @ ''BOP'',
         eop = symbol @ ''EOP'',
         boi = symbol @ ''BOI'',
         eoi = symbol @ ''EOI'',
         boc = symbol @ ''BOC'',
         eoc = symbol @ ''EOC'',
         boe = symbol @ ''BOE'',
         eoe = symbol @ ''EOE'',
         bor = symbol @ ''BOR'',
         eor = symbol @ ''EOR'',
         bopi = symbol @ ''BOPI'',
         eopi = symbol @ ''EOPI'',
         iiro = symbol @ ''IIROUTINE:'',
         cro = symbol @ ''CROUTINE:'',
         program = symbol @ ''PROGRAM:''\<rparr>)"

text \<open>The comment symbol of a supported language, as the table gives it.\<close>

definition comment_symbol :: "string \<Rightarrow> string option" where
  "comment_symbol code =
    (case map_of language_info code of None \<Rightarrow> None | Some entry \<Rightarrow> map_of entry ''comment'')"

definition supported_codes :: "string list" where
  "supported_codes = map fst language_info"

subsection \<open>Document state and options\<close>

text \<open>The \<^verbatim>\<open>state\<close> dictionary of \<^verbatim>\<open>main\<close>, shared by all files of a run.\<close>

record state =
  intro :: bool
  prologue :: bool
  first :: bool
  source :: bool
  verb :: bool
  tpage :: bool
  begdoc :: bool
  not_first :: bool
  have_name :: bool
  have_desc :: bool
  have_intf :: bool
  have_hist :: bool
  name_is :: string
  title :: string
  author :: string
  affiliation :: string
  doc_date :: string
  resource :: bool

definition initial_state :: state where
  "initial_state =
    \<lparr>intro = False, prologue = False, first = True, source = False, verb = False,
     tpage = False, begdoc = False, not_first = False, have_name = False,
     have_desc = False, have_intf = False, have_hist = False, name_is = ''UNKNOWN'',
     title = [], author = [], affiliation = [], doc_date = [], resource = False\<rparr>"

text \<open>
  The parsed command line. The source's attributes \<^verbatim>\<open>g\<close>, \<^verbatim>\<open>M\<close>, \<^verbatim>\<open>n\<close>, \<^verbatim>\<open>l\<close>, \<^verbatim>\<open>s\<close>, \<^verbatim>\<open>f\<close>
  and the others carry the prefix \<open>opt_\<close> here, so that they do not capture variables.
\<close>

record opts =
  opt_bare :: bool
  opt_g :: bool
  opt_M :: bool
  opt_n :: bool
  opt_l :: bool
  opt_s :: bool
  opt_nolatex :: bool
  opt_f :: bool
  opt_internal :: bool
  opt_keys :: "string list"
  opt_style :: "string option"

definition default_keys :: "string list" where
  "default_keys =
    [''!INTERFACE:'', ''!USES:'', ''!PUBLIC TYPES:'', ''!PRIVATE TYPES:'',
     ''!PUBLIC MEMBER FUNCTIONS:'', ''!PRIVATE MEMBER FUNCTIONS:'',
     ''!PUBLIC DATA MEMBERS:'', ''!PARAMETERS:'', ''!ARGUMENTS:'',
     ''!DEFINED PARAMETERS:'', ''!INPUT PARAMETERS:'', ''!INPUT/OUTPUT PARAMETERS:'',
     ''!OUTPUT PARAMETERS:'', ''!RETURN VALUE:'', ''!REVISION HISTORY:'',
     ''!BUGS:'', ''!SEE ALSO:'', ''!SYSTEM ROUTINES:'', ''!FILES USED:'',
     ''!REMARKS:'', ''!TO DO:'', ''!CALLING SEQUENCE:'', ''!AUTHOR:'',
     ''!CALLED FROM:'', ''!LOCAL VARIABLES:'']"

definition default_opts :: opts where
  "default_opts =
    \<lparr>opt_bare = False, opt_g = False, opt_M = False, opt_n = False, opt_l = False,
     opt_s = False, opt_nolatex = False, opt_f = False, opt_internal = False,
     opt_keys = default_keys, opt_style = None\<rparr>"

subsection \<open>Fragment emitters\<close>

text \<open>
  Every emitter returns the lines it prints and the state it leaves. The source's list
  \<^verbatim>\<open>fields\<close> is \<open>flds\<close> here: a record declaration claims the longer name.
\<close>

definition process_resource_line :: "string \<Rightarrow> string list" where
  "process_resource_line line =
    (let parts = map strip (split_on CHR '','' line)
     in if length parts \<ge> 4
        then [BS @ ''makebox[1.0in][l]{'' @ parts ! 0 @ ''} & '' @
              BS @ ''makebox[3.5in][l]{'' @ parts ! 1 @ ''} & '' @
              BS @ ''makebox[1.0in][l]{'' @ parts ! 2 @ ''} & '' @
              BS @ ''makebox[1.0in][l]{'' @ parts ! 3 @ ''} '' @ BS @ BS,
              BS @ ''hline'']
        else [line])"

definition do_beg :: "state \<Rightarrow> bool \<Rightarrow> string list \<times> state" where
  "do_beg st bare =
    (if bare then ([], st)
     else if \<not> begdoc st then
       ((if tpage st
         then [BS @ ''title{'' @ title st @ ''}'',
               BS @ ''author{{'' @ BS @ ''sc '' @ author st @ ''}'' @ BS @ BS @ '' {'' @ BS @
                 ''em '' @ affiliation st @ ''}}'',
               BS @ ''date{'' @ doc_date st @ ''}'']
         else []) @
        [BS @ ''begin{document}''] @
        (if tpage st then [BS @ ''maketitle''] else []) @
        [BS @ ''tableofcontents'', BS @ ''newpage''],
        st\<lparr>begdoc := True\<rparr>)
     else ([], st))"

definition do_boc :: "state \<Rightarrow> string \<Rightarrow> string list \<times> state" where
  "do_boc st lang_name =
    ([NL @ '' %------------------ START CODE ------------------%'',
      BS @ ''begin{minted}[breaklines,breakafter=-+*/&]{'' @ lang_name @ ''}''],
     st\<lparr>first := False, prologue := False, source := True, verb := True\<rparr>)"

definition do_eoc :: "state \<Rightarrow> string list \<times> state" where
  "do_eoc st =
    ((if verb st then [BS @ ''end{minted}''] else []) @
     [NL @ '' %------------------ END CODE ------------------%''],
     (if verb st then st\<lparr>verb := False\<rparr> else st)\<lparr>source := False\<rparr>)"

definition set_missing :: "state \<Rightarrow> state" where
  "set_missing st =
    st\<lparr>have_name := False, have_desc := False, have_intf := False, have_hist := False,
       name_is := ''UNKNOWN''\<rparr>"

subsection \<open>Primary field markers\<close>

definition get_format :: "string \<Rightarrow> bool \<Rightarrow> string" where
  "get_format fmt remove_source =
    (if remove_source then replace_str '' (Source File: %s)'' [] fmt else fmt)"

text \<open>
  \<^verbatim>\<open>process_generic\<close> adjusts the template it is given with \<^verbatim>\<open>get_format\<close> once more
  and formats it with one or two arguments.
\<close>

definition process_generic ::
  "string list \<Rightarrow> string \<Rightarrow> string \<Rightarrow> opts \<Rightarrow> state \<Rightarrow> error + string list \<times> state" where
  "process_generic flds latex_template file_basename opts st =
    (let latex_template = get_format latex_template (opt_f opts);
         content = replace_str ''_'' (BS @ ''_'') (join_sp flds);
         out1 = (if opt_n opts \<and> not_first st then [BS @ ''newpage''] else [])
     in case (if \<not> opt_f opts then py_format latex_template [content, file_basename]
              else py_format latex_template [content]) of
          Inl e \<Rightarrow> Inl e
        | Inr heading \<Rightarrow> Inr (out1 @ [heading], st\<lparr>have_name := True, not_first := True\<rparr>))"

definition process_internal ::
  "string list \<Rightarrow> string \<Rightarrow> opts \<Rightarrow> state \<Rightarrow> error + string list \<times> state" where
  "process_internal flds file_basename opts st =
    (let content = replace_str ''_'' (BS @ ''_'') (join_sp flds);
         words = split_all content;
         short_label = (if length words > 1 then words ! 1 else [])
     in Inr ([BS @ ''subsubsection ['' @ short_label @ '']{'' @ content @ ''}'' @ NL],
             st\<lparr>have_name := True\<rparr>))"

definition process_overloaded ::
  "string list \<Rightarrow> string \<Rightarrow> opts \<Rightarrow> state \<Rightarrow> error + string list \<times> state" where
  "process_overloaded flds file_basename opts st =
    (let content = replace_str ''_'' (BS @ ''_'') (join_sp flds);
         words = split_all content;
         short_label = (if length words > 1 then join_sp (drop 1 words) else [])
     in Inr ([BS @ ''subsubsection ['' @ short_label @ '']{'' @ content @ ''}'' @ NL],
             st\<lparr>have_name := True\<rparr>))"

definition process_contained ::
  "string list \<Rightarrow> string \<Rightarrow> opts \<Rightarrow> state \<Rightarrow> error + string list \<times> state" where
  "process_contained flds file_basename opts st =
    (let content = replace_str ''_'' (BS @ ''_'') (join_sp flds);
         words = split_all content;
         short_label = (if length words > 1 then words ! 1 else [])
     in Inr ([BS @ ''subsubsection ['' @ short_label @ '']{'' @ content @ ''}'' @ NL],
             st\<lparr>have_name := True\<rparr>))"

text \<open>
  The dictionary of \<^verbatim>\<open>get_prologue_processors\<close>, as a map from the marker to its
  processor. The entry of \<^verbatim>\<open>!FUNCTION:\<close> passes its template without \<^verbatim>\<open>get_format\<close>.
\<close>

type_synonym processor =
  "string list \<Rightarrow> string \<Rightarrow> opts \<Rightarrow> state \<Rightarrow> error + string list \<times> state"

definition get_prologue_processors :: "opts \<Rightarrow> string \<Rightarrow> processor option" where
  "get_prologue_processors opts0 =
    (let remove_source = opt_f opts0
     in map_of
      [(''!MODULE:'', \<lambda>flds fb opts st. process_generic flds
          (get_format (BS @ ''subsection{Fortran: Module Interface %s (Source File: %s)}'' @ NL)
             remove_source) fb opts st),
       (''!PROGRAM:'', \<lambda>flds fb opts st. process_generic flds
          (get_format (BS @ ''subsection{Fortran: Main Program %s (Source File: %s)}'' @ NL)
             remove_source) fb opts st),
       (''!ROUTINE:'', \<lambda>flds fb opts st. process_generic flds
          (get_format (BS @ ''subsubsection{%s (Source File: %s)}'' @ NL) remove_source)
          fb opts st),
       (''!FUNCTION:'', \<lambda>flds fb opts st. process_generic flds
          (BS @ ''subsubsection{%s (Source File: %s)}'' @ NL) fb opts st),
       (''!IROUTINE:'', process_internal),
       (''!IFUNCTION:'', process_internal),
       (''!IIROUTINE:'', process_overloaded),
       (''!CROUTINE:'', process_contained)])"

subsection \<open>The line loop of \<^verbatim>\<open>process_file\<close>\<close>

text \<open>
  The marker sits in the second field when the first one is the bare comment symbol.
  Where the source pops the fields up to the marker, \<open>pop_marker\<close> drops them.
\<close>

definition marker_index :: "tokens \<Rightarrow> string list \<Rightarrow> nat" where
  "marker_index tokens flds = (if flds \<noteq> [] \<and> hd flds = comment tokens then 1 else 0)"

definition pop_marker :: "nat \<Rightarrow> string list \<Rightarrow> string list" where
  "pop_marker mi flds = tl (if mi = 1 then tl flds else flds)"

text \<open>
  The introduction block: \<open>None\<close> when no branch of it is taken and the loop body
  goes on to the next test.
\<close>

definition process_intro ::
  "opts \<Rightarrow> state \<Rightarrow> string list \<Rightarrow> nat \<Rightarrow> (string list \<times> state) option" where
  "process_intro opts st flds mi =
    (if intro st \<and> length flds > mi + 1 then
       (let marker = flds ! (mi + 1);
            rest = join_sp (pop_marker mi flds)
        in if marker = ''!TITLE:'' then Some ([], st\<lparr>title := rest, tpage := True\<rparr>)
           else if marker = ''!AUTHORS:'' then Some ([], st\<lparr>author := rest, tpage := True\<rparr>)
           else if marker = ''!AFFILIATION:'' then
             Some ([], st\<lparr>affiliation := rest, tpage := True\<rparr>)
           else if marker = ''!DATE:'' then Some ([], st\<lparr>doc_date := rest, tpage := True\<rparr>)
           else if marker = ''!INTRODUCTION:'' then
             (case do_beg st (opt_bare opts) of
                (out1, st1) \<Rightarrow>
                  Some (out1 @ ['' %..............................................'', BS @ ''section{'' @ rest @ ''}''], st1))
           else None)
     else None)"

text \<open>
  The body shared by the \<^verbatim>\<open>!BOP\<close> branch and by the \<^verbatim>\<open>!BOPI\<close> branch outside internal
  mode (the source writes it twice).
\<close>

definition begin_prologue :: "opts \<Rightarrow> state \<Rightarrow> string list \<times> state" where
  "begin_prologue opts st =
    (case (if source st then do_eoc st else ([], st)) of
       (out1, st1) \<Rightarrow>
        (case do_beg st1 (opt_bare opts) of
           (out2, st2) \<Rightarrow>
             (out1 @ out2 @
              (if \<not> first st2 then [NL @ BS @ ''mbox{}'' @ BS @ ''hrulefill'' @ BS]
               else if \<not> opt_bare opts \<and> \<not> (opt_g opts \<or> opt_M opts)
               then [BS @ ''section{Routine/Function Prologues} '' @ BS @ ''label{app:ProLogues}'']
               else []),
              set_missing
                (st2\<lparr>first := False, prologue := True, verb := False, source := False\<rparr>))))"

definition process_description ::
  "opts \<Rightarrow> string \<Rightarrow> state \<Rightarrow> string \<Rightarrow> error + string list \<times> state" where
  "process_description opts lang_name st line =
    (let out1 = (if verb st
                 then [BS @ ''end{minted}'', ''{'' @ BS @ ''sf DESCRIPTION:'' @ BS @ BS @ '' }'', []]
                 else []);
         st1 = (if verb st then st\<lparr>verb := False\<rparr> else st)
     in if opt_nolatex opts
        then Inr (out1 @ [BS @ ''begin{minted}[breaklines]{'' @ lang_name @ ''}''],
                  st1\<lparr>verb := True, have_desc := True\<rparr>)
        else (case split_all line of
                [] \<Rightarrow> Inl (IndexError ''list index out of range'')
              | p # ps \<Rightarrow>
                 (let start = (if p = ''!'' then 1 else 0 :: nat)
                  in Inr (out1 @ [join_sp (drop (start + 1) (p # ps))],
                          st1\<lparr>have_desc := True\<rparr>))))"

definition emphasized_words :: "string list" where
  "emphasized_words = [''USES'', ''INPUT'', ''OUTPUT'', ''PARAMETERS'', ''VALUE'', ''ARGUMENTS'']"

definition process_keyword :: "string \<Rightarrow> state \<Rightarrow> string \<Rightarrow> string \<Rightarrow> string list \<times> state" where
  "process_keyword lang_name st line key =
    (let out1 = (if verb st then [BS @ ''end{minted}''] else [NL @ BS @ ''bigskip'']);
         label = drop 1 key;
         out2 = (if list_ex (\<lambda>x. str_in x line) emphasized_words
                 then [''{'' @ BS @ ''em '' @ label @ ''}'']
                 else [''{'' @ BS @ ''sf '' @ label @ ''}''])
     in (out1 @ out2 @ [BS @ ''begin{minted}[breaklines]{'' @ lang_name @ ''}''],
         st\<lparr>verb := True\<rparr>))"

text \<open>The block guarded by \<^verbatim>\<open>state["prologue"]\<close>; \<open>None\<close> when it falls through.\<close>

definition process_prologue ::
  "opts \<Rightarrow> tokens \<Rightarrow> string \<Rightarrow> string \<Rightarrow> state \<Rightarrow> string \<Rightarrow> string list \<Rightarrow> nat
    \<Rightarrow> (error + string list \<times> state) option" where
  "process_prologue opts tokens lang_name file_basename st line flds mi =
    (let marker = (if length flds > 1 then flds ! 1 else flds ! 0)
     in case get_prologue_processors opts marker of
          Some p \<Rightarrow> Some (p (pop_marker mi flds) file_basename opts st)
        | None \<Rightarrow>
           if str_in ''!DESCRIPTION:'' line
           then Some (process_description opts lang_name st line)
           else (case find (\<lambda>key. str_in key line) (opt_keys opts) of
                   Some key \<Rightarrow> Some (Inr (process_keyword lang_name st line key))
                 | None \<Rightarrow>
                    if flds ! mi = eop tokens \<or> flds ! mi = eopi tokens
                    then Some (Inr ((if verb st then [BS @ ''end{minted}''] else []),
                                    (if verb st then st\<lparr>verb := False\<rparr> else st)
                                      \<lparr>prologue := False\<rparr>))
                    else None))"

text \<open>
  The last lines of the loop body strip the comment symbol from the start of the line:
  \<^verbatim>\<open>if line.startswith(tokens["comment"]): line = line[len(tokens["comment"]):]\<close>.
\<close>

definition strip_comment :: "tokens \<Rightarrow> string \<Rightarrow> string" where
  "strip_comment tokens line =
    (if prefix (comment tokens) line then drop (length (comment tokens)) line else line)"

text \<open>The code and example markers, and the lines that are no marker.\<close>

definition process_rest ::
  "opts \<Rightarrow> tokens \<Rightarrow> string \<Rightarrow> state \<Rightarrow> string \<Rightarrow> string \<Rightarrow> string list \<Rightarrow> nat
    \<Rightarrow> string list \<times> state" where
  "process_rest opts tokens lang_name st raw_line line flds mi =
    (if flds ! mi = boc tokens then
       (if opt_s opts then ([], st\<lparr>prologue := False\<rparr>) else do_boc st lang_name)
     else if flds ! mi = eoc tokens then do_eoc st
     else if flds ! mi = boe tokens then
       (case (if source st then do_eoc st else ([], st)) of
          (out1, st1) \<Rightarrow>
            (out1 @ [NL @ '' %/////////////////////////////////////////////////////////////''],
             st1\<lparr>first := False, prologue := True, verb := False, source := False\<rparr>))
     else if flds ! mi = eoe tokens then
       ((if verb st then [BS @ ''end{minted}''] else []),
        (if verb st then st\<lparr>verb := False\<rparr> else st)\<lparr>prologue := False\<rparr>)
     else if prologue st \<or> intro st then
       ([strip_comment tokens line], st)
     else if source st then ([raw_line], st)
     else ([], st))"

definition resource_header :: "string list" where
  "resource_header =
    [BS @ ''begin{center}'',
     ''{'' @ BS @ ''bf RESOURCES:}'' @ BS @ BS,
     BS @ ''begin{tabular}{|l|l|l|l|}'',
     BS @ ''hline'',
     BS @ ''textbf{Name} & '' @ BS @ ''textbf{Description} & '' @ BS @ ''textbf{Units} & '' @
       BS @ ''textbf{Default} '' @ BS @ BS,
     BS @ ''hline'',
     BS @ ''end{tabular}'',
     BS @ ''end{center}'']"

text \<open>
  One iteration of the loop over the lines of the file: \<open>process_line\<close> strips and
  splits the line, \<open>process_fields\<close> is the rest of the loop body.
\<close>

definition process_fields ::
  "opts \<Rightarrow> tokens \<Rightarrow> string \<Rightarrow> string \<Rightarrow> state \<Rightarrow> string \<Rightarrow> string \<Rightarrow> string list \<Rightarrow> nat
    \<Rightarrow> error + string list \<times> state" where
  "process_fields opts tokens lang_name file_basename st raw_line line flds mi =
    (if length flds \<le> mi then Inr ([], st)
     else if resource st then
       (if flds ! mi = eor tokens then Inr ([], st\<lparr>resource := False\<rparr>)
        else Inr (process_resource_line line, st))
     else if flds ! mi = ''!QUOTE:'' then Inr ([join_sp (drop (mi + 1) flds)], st)
     else if flds ! mi = boi tokens then Inr ([], st\<lparr>intro := True\<rparr>)
     else (case process_intro opts st flds mi of
             Some r \<Rightarrow> Inr r
           | None \<Rightarrow>
              if flds ! mi = eoi tokens
              then Inr ([NL @ '' %/////////////////////////////////////////////////////////////'', BS @ ''newpage''], st\<lparr>intro := False\<rparr>)
              else if flds ! mi = bor tokens
              then Inr (resource_header, st\<lparr>resource := True\<rparr>)
              else if flds ! mi = bop tokens then Inr (begin_prologue opts st)
              else if flds ! mi = bopi tokens then
                (if opt_internal opts then Inr ([], st\<lparr>prologue := False\<rparr>)
                 else Inr (begin_prologue opts st))
              else (case (if prologue st
                          then process_prologue opts tokens lang_name file_basename st
                                 line flds mi
                          else None) of
                      Some r \<Rightarrow> r
                    | None \<Rightarrow>
                       Inr (process_rest opts tokens lang_name st raw_line line flds mi))))"

definition process_line ::
  "opts \<Rightarrow> tokens \<Rightarrow> string \<Rightarrow> string \<Rightarrow> state \<Rightarrow> string \<Rightarrow> error + string list \<times> state" where
  "process_line opts tokens lang_name file_basename st line0 =
    (let raw_line = rstrip (rstrip_nl line0);
         line = lstrip raw_line;
         flds = split_ws 9999 line;
         mi = marker_index tokens flds
     in process_fields opts tokens lang_name file_basename st raw_line line flds mi)"

fun process_lines ::
  "opts \<Rightarrow> tokens \<Rightarrow> string \<Rightarrow> string \<Rightarrow> state \<Rightarrow> string list
    \<Rightarrow> error + string list \<times> state" where
  "process_lines opts tokens lang_name file_basename st [] = Inr ([], st)"
| "process_lines opts tokens lang_name file_basename st (l # ls) =
     (case process_line opts tokens lang_name file_basename st l of
        Inl e \<Rightarrow> Inl e
      | Inr (out1, st1) \<Rightarrow>
         (case process_lines opts tokens lang_name file_basename st1 ls of
            Inl e \<Rightarrow> Inl e
          | Inr (out2, st2) \<Rightarrow> Inr (out1 @ out2, st2)))"



subsection \<open>The parts of a line\<close>

text \<open>
  What the loop body computes from a line before it tests anything: the line without
  trailing whitespace, the same without leading whitespace, its fields, the index of the
  marker and, when the line has a field there, the marker token.
\<close>

definition line_raw :: "string \<Rightarrow> string" where
  "line_raw line0 = rstrip (rstrip_nl line0)"

definition line_text :: "string \<Rightarrow> string" where
  "line_text line0 = lstrip (line_raw line0)"

definition line_fields :: "string \<Rightarrow> string list" where
  "line_fields line0 = split_ws 9999 (line_text line0)"

definition line_mi :: "tokens \<Rightarrow> string \<Rightarrow> nat" where
  "line_mi tokens line0 = marker_index tokens (line_fields line0)"

definition line_marker :: "tokens \<Rightarrow> string \<Rightarrow> string option" where
  "line_marker tokens line0 =
    (if length (line_fields line0) \<le> line_mi tokens line0 then None
     else Some (line_fields line0 ! line_mi tokens line0))"

definition early_markers :: "tokens \<Rightarrow> string list" where
  "early_markers tokens =
    [''!QUOTE:'', boi tokens, eoi tokens, bor tokens, bop tokens, bopi tokens]"

definition structural_markers :: "tokens \<Rightarrow> string list" where
  "structural_markers tokens =
    early_markers tokens @ [boc tokens, eoc tokens, boe tokens, eoe tokens]"

definition intro_field_line :: "tokens \<Rightarrow> string \<Rightarrow> bool" where
  "intro_field_line tokens line0 \<longleftrightarrow>
    length (line_fields line0) > line_mi tokens line0 + 1 \<and>
    line_fields line0 ! (line_mi tokens line0 + 1) \<in>
      set [''!TITLE:'', ''!AUTHORS:'', ''!AFFILIATION:'', ''!DATE:'', ''!INTRODUCTION:'']"

definition primary_token :: "string \<Rightarrow> string" where
  "primary_token line0 =
    (if length (line_fields line0) > 1 then line_fields line0 ! 1 else line_fields line0 ! 0)"

definition prologue_field_line :: "opts \<Rightarrow> string \<Rightarrow> bool" where
  "prologue_field_line opts line0 \<longleftrightarrow>
    get_prologue_processors opts (primary_token line0) \<noteq> None \<or>
    str_in ''!DESCRIPTION:'' (line_text line0) \<or>
    list_ex (\<lambda>key. str_in key (line_text line0)) (opt_keys opts)"

definition passthrough :: "tokens \<Rightarrow> state \<Rightarrow> string \<Rightarrow> string list" where
  "passthrough tokens st line0 =
    (if line_marker tokens line0 = None then []
     else if intro st then [strip_comment tokens (line_text line0)]
     else if source st then [line_raw line0]
     else [])"

definition ordinary_line :: "tokens \<Rightarrow> string \<Rightarrow> bool" where
  "ordinary_line tokens line0 \<longleftrightarrow>
    (case line_marker tokens line0 of
       None \<Rightarrow> True
     | Some m \<Rightarrow> m \<notin> set (structural_markers tokens))"

text \<open>The Fortran marker set, for concrete runs.\<close>

definition fortran_tokens :: tokens where
  "fortran_tokens =
    \<lparr>comment = ''!'', bop = ''!BOP'', eop = ''!EOP'', boi = ''!BOI'', eoi = ''!EOI'',
     boc = ''!BOC'', eoc = ''!EOC'', boe = ''!BOE'', eoe = ''!EOE'', bor = ''!BOR'',
     eor = ''!EOR'', bopi = ''!BOPI'', eopi = ''!EOPI'', iiro = ''!IIROUTINE:'',
     cro = ''!CROUTINE:'', program = ''!PROGRAM:''\<rparr>"

text \<open>The table row that \<^verbatim>\<open>process_resource_line\<close> prints from the first four parts.\<close>

definition resource_row :: "string list \<Rightarrow> string" where
  "resource_row parts =
     BS @ ''makebox[1.0in][l]{'' @ parts ! 0 @ ''} & '' @
     BS @ ''makebox[3.5in][l]{'' @ parts ! 1 @ ''} & '' @
     BS @ ''makebox[1.0in][l]{'' @ parts ! 2 @ ''} & '' @
     BS @ ''makebox[1.0in][l]{'' @ parts ! 3 @ ''} '' @ BS @ BS"

definition end_code_banner :: string where
  "end_code_banner = NL @ '' %------------------ END CODE ------------------%''"



section \<open>Properties\<close>

subsection \<open>The marker vocabulary\<close>

lemma supported_codes_eq: "supported_codes = [''F'', ''A'', ''C'', ''S'', ''G'', ''P'']"
  by (simp add: supported_codes_def language_info_def)

lemma map_of_language_info_None:
  "code \<notin> set supported_codes \<Longrightarrow> map_of language_info code = None"
  by (simp add: supported_codes_def map_of_eq_None_iff)

lemma get_language_info_unsupported:
  "code \<notin> set supported_codes \<Longrightarrow>
     get_language_info code info_type =
       Inl (ValueError (''Invalid language code: '' @ [CHR 0x27] @ code @ [CHR 0x27]))"
  by (simp add: get_language_info_def map_of_language_info_None)

text \<open>
  Claim C4. For every supported language code the resolver returns a marker set in which
  every role (the comment symbol itself, prologue, internal prologue, introduction, code,
  example and resource begin and end, and the three routine keywords) is the comment
  symbol of the language followed by the fixed suffix of the role; for every other code
  it fails with the error for an invalid language code, a \<^verbatim>\<open>ValueError\<close> in the source.
\<close>

theorem get_language_tokens_vocabulary:
  "(code \<in> set supported_codes \<longrightarrow>
      (\<exists>symbol t. comment_symbol code = Some symbol \<and> get_language_tokens code = Inr t \<and>
         comment t = symbol \<and>
         bop t = symbol @ ''BOP'' \<and> eop t = symbol @ ''EOP'' \<and>
         bopi t = symbol @ ''BOPI'' \<and> eopi t = symbol @ ''EOPI'' \<and>
         boi t = symbol @ ''BOI'' \<and> eoi t = symbol @ ''EOI'' \<and>
         boc t = symbol @ ''BOC'' \<and> eoc t = symbol @ ''EOC'' \<and>
         boe t = symbol @ ''BOE'' \<and> eoe t = symbol @ ''EOE'' \<and>
         bor t = symbol @ ''BOR'' \<and> eor t = symbol @ ''EOR'' \<and>
         iiro t = symbol @ ''IIROUTINE:'' \<and> cro t = symbol @ ''CROUTINE:'' \<and>
         program t = symbol @ ''PROGRAM:'')) \<and>
   (code \<notin> set supported_codes \<longrightarrow>
      get_language_tokens code =
        Inl (ValueError (''Invalid language code: '' @ [CHR 0x27] @ code @ [CHR 0x27])))"
proof (intro conjI impI)
  assume "code \<in> set supported_codes"
  then consider "code = ''F''" | "code = ''A''" | "code = ''C''" | "code = ''S''"
    | "code = ''G''" | "code = ''P''"
    by (auto simp: supported_codes_eq)
  then show "\<exists>symbol t. comment_symbol code = Some symbol \<and> get_language_tokens code = Inr t \<and>
         comment t = symbol \<and>
         bop t = symbol @ ''BOP'' \<and> eop t = symbol @ ''EOP'' \<and>
         bopi t = symbol @ ''BOPI'' \<and> eopi t = symbol @ ''EOPI'' \<and>
         boi t = symbol @ ''BOI'' \<and> eoi t = symbol @ ''EOI'' \<and>
         boc t = symbol @ ''BOC'' \<and> eoc t = symbol @ ''EOC'' \<and>
         boe t = symbol @ ''BOE'' \<and> eoe t = symbol @ ''EOE'' \<and>
         bor t = symbol @ ''BOR'' \<and> eor t = symbol @ ''EOR'' \<and>
         iiro t = symbol @ ''IIROUTINE:'' \<and> cro t = symbol @ ''CROUTINE:'' \<and>
         program t = symbol @ ''PROGRAM:''"
    by cases
      (simp_all add: comment_symbol_def get_language_tokens_def get_language_info_def
         language_info_def)
next
  assume "code \<notin> set supported_codes"
  then show "get_language_tokens code =
        Inl (ValueError (''Invalid language code: '' @ [CHR 0x27] @ code @ [CHR 0x27]))"
    by (simp add: get_language_tokens_def get_language_info_unsupported)
qed

theorem get_language_tokens_vocabulary_witness:
  "''A'' \<in> set supported_codes \<and>
   (\<exists>t. get_language_tokens ''A'' = Inr t \<and> comment t = ''--'' \<and> bop t = ''--BOP'' \<and>
      eopi t = ''--EOPI'' \<and> eor t = ''--EOR'' \<and> iiro t = ''--IIROUTINE:'') \<and>
   ''X'' \<notin> set supported_codes \<and>
   get_language_tokens ''X'' = Inl (ValueError (''Invalid language code: '' @ [CHR 0x27] @ ''X'' @ [CHR 0x27]))"
proof -
  have a: "''A'' \<in> set supported_codes" and x: "''X'' \<notin> set supported_codes"
    by (simp_all add: supported_codes_eq)
  have s: "comment_symbol ''A'' = Some ''--''"
    by (simp add: comment_symbol_def language_info_def)
  from a s get_language_tokens_vocabulary [of "''A''"]
  have "\<exists>t. get_language_tokens ''A'' = Inr t \<and> comment t = ''--'' \<and> bop t = ''--BOP'' \<and>
      eopi t = ''--EOPI'' \<and> eor t = ''--EOR'' \<and> iiro t = ''--IIROUTINE:''"
    by auto
  moreover from x get_language_tokens_vocabulary [of "''X''"]
  have "get_language_tokens ''X'' = Inl (ValueError (''Invalid language code: '' @ [CHR 0x27] @ ''X'' @ [CHR 0x27]))"
    by blast
  ultimately show ?thesis using a x by blast
qed

subsection \<open>One line at a time\<close>

lemma fortran_tokens_eq: "get_language_tokens ''F'' = Inr fortran_tokens"
  by (simp add: get_language_tokens_def get_language_info_def language_info_def
      fortran_tokens_def)

lemma process_line_fields:
  "process_line opts tokens lang_name file_basename st l =
     process_fields opts tokens lang_name file_basename st (line_raw l) (line_text l)
       (line_fields l) (line_mi tokens l)"
  by (simp add: process_line_def line_mi_def line_fields_def line_text_def line_raw_def Let_def)

lemma line_marker_NoneD:
  "line_marker tokens l = None \<Longrightarrow> length (line_fields l) \<le> line_mi tokens l"
  by (simp add: line_marker_def split: if_splits)

lemma line_marker_SomeD:
  "line_marker tokens l = Some m \<Longrightarrow>
     \<not> length (line_fields l) \<le> line_mi tokens l \<and> line_fields l ! line_mi tokens l = m"
  by (simp add: line_marker_def split: if_splits)

lemma process_line_None:
  "line_marker tokens l = None \<Longrightarrow>
     process_line opts tokens lang_name file_basename st l = Inr ([], st)"
  by (simp add: process_line_fields process_fields_def line_marker_NoneD)

lemma get_language_tokens_cases:
  assumes "get_language_tokens lang = Inr tokens"
  obtains symbol where "symbol \<in> set [''!'', ''--'', ''//'', ''#'', ''*'']"
    and "tokens = \<lparr>comment = symbol, bop = symbol @ ''BOP'', eop = symbol @ ''EOP'',
         boi = symbol @ ''BOI'', eoi = symbol @ ''EOI'', boc = symbol @ ''BOC'',
         eoc = symbol @ ''EOC'', boe = symbol @ ''BOE'', eoe = symbol @ ''EOE'',
         bor = symbol @ ''BOR'', eor = symbol @ ''EOR'', bopi = symbol @ ''BOPI'',
         eopi = symbol @ ''EOPI'', iiro = symbol @ ''IIROUTINE:'',
         cro = symbol @ ''CROUTINE:'', program = symbol @ ''PROGRAM:''\<rparr>"
proof -
  have "lang \<in> set supported_codes"
  proof (rule ccontr)
    assume "lang \<notin> set supported_codes"
    then have "get_language_tokens lang =
        Inl (ValueError (''Invalid language code: '' @ [CHR 0x27] @ lang @ [CHR 0x27]))"
      by (simp add: get_language_tokens_def get_language_info_unsupported)
    with assms show False by simp
  qed
  then consider "lang = ''F''" | "lang = ''A''" | "lang = ''C''" | "lang = ''S''"
    | "lang = ''G''" | "lang = ''P''"
    by (auto simp: supported_codes_eq)
  then show thesis
  proof cases
    case 1 with assms that [of "''!''"] show ?thesis
      by (simp add: get_language_tokens_def get_language_info_def language_info_def)
  next
    case 2 with assms that [of "''--''"] show ?thesis
      by (simp add: get_language_tokens_def get_language_info_def language_info_def)
  next
    case 3 with assms that [of "''//''"] show ?thesis
      by (simp add: get_language_tokens_def get_language_info_def language_info_def)
  next
    case 4 with assms that [of "''#''"] show ?thesis
      by (simp add: get_language_tokens_def get_language_info_def language_info_def)
  next
    case 5 with assms that [of "''*''"] show ?thesis
      by (simp add: get_language_tokens_def get_language_info_def language_info_def)
  next
    case 6 with assms that [of "''#''"] show ?thesis
      by (simp add: get_language_tokens_def get_language_info_def language_info_def)
  qed
qed

lemma tokens_distinct:
  assumes "get_language_tokens lang = Inr tokens"
  shows "distinct [''!QUOTE:'', boi tokens, eoi tokens, bor tokens, eor tokens, bop tokens,
    bopi tokens, eop tokens, eopi tokens, boc tokens, eoc tokens, boe tokens, eoe tokens]"
proof -
  from assms obtain symbol where "symbol \<in> set [''!'', ''--'', ''//'', ''#'', ''*'']"
    and t: "tokens = \<lparr>comment = symbol, bop = symbol @ ''BOP'', eop = symbol @ ''EOP'',
         boi = symbol @ ''BOI'', eoi = symbol @ ''EOI'', boc = symbol @ ''BOC'',
         eoc = symbol @ ''EOC'', boe = symbol @ ''BOE'', eoe = symbol @ ''EOE'',
         bor = symbol @ ''BOR'', eor = symbol @ ''EOR'', bopi = symbol @ ''BOPI'',
         eopi = symbol @ ''EOPI'', iiro = symbol @ ''IIROUTINE:'',
         cro = symbol @ ''CROUTINE:'', program = symbol @ ''PROGRAM:''\<rparr>"
    by (rule get_language_tokens_cases)
  then consider "symbol = ''!''" | "symbol = ''--''" | "symbol = ''//''" | "symbol = ''#''"
    | "symbol = ''*''"
    by auto
  then show ?thesis
    by cases (simp_all add: t)
qed

lemma process_intro_None:
  "intro st \<longrightarrow> \<not> intro_field_line tokens l \<Longrightarrow>
     process_intro opts st (line_fields l) (line_mi tokens l) = None"
  by (auto simp: process_intro_def intro_field_line_def Let_def)

lemma find_keys_None:
  "\<not> list_ex (\<lambda>key. str_in key line) ks \<Longrightarrow> find (\<lambda>key. str_in key line) ks = None"
  by (simp add: find_None_iff list_ex_iff)

lemma process_prologue_no_field:
  assumes "\<not> prologue_field_line opts l" and "line_marker tokens l = Some m"
  shows "process_prologue opts tokens lang_name file_basename st (line_text l) (line_fields l)
      (line_mi tokens l) =
    (if m = eop tokens \<or> m = eopi tokens
     then Some (Inr ((if verb st then [BS @ ''end{minted}''] else []),
                     st\<lparr>verb := False, prologue := False\<rparr>))
     else None)"
proof -
  from assms(1) have p: "get_prologue_processors opts
        (if 1 < length (line_fields l) then line_fields l ! 1 else line_fields l ! 0) = None"
    and d: "\<not> str_in ''!DESCRIPTION:'' (line_text l)"
    and k: "find (\<lambda>key. str_in key (line_text l)) (opt_keys opts) = None"
    by (simp_all add: prologue_field_line_def primary_token_def find_keys_None)
  from assms(2) have m: "line_fields l ! line_mi tokens l = m"
    by (simp add: line_marker_SomeD)
  have v: "\<not> verb st \<Longrightarrow> st\<lparr>verb := False, prologue := False\<rparr> = st\<lparr>prologue := False\<rparr>"
    by simp
  show ?thesis
    using d v p by (simp add: process_prologue_def Let_def k m split: if_splits)
qed

lemma process_fields_late:
  assumes "\<not> resource st" and "length flds > mi" and "flds ! mi \<notin> set (early_markers tokens)"
    and "process_intro opts st flds mi = None"
  shows "process_fields opts tokens lang_name file_basename st raw_line line flds mi =
    (case (if prologue st
           then process_prologue opts tokens lang_name file_basename st line flds mi
           else None) of
       Some r \<Rightarrow> r
     | None \<Rightarrow> Inr (process_rest opts tokens lang_name st raw_line line flds mi))"
  using assms unfolding process_fields_def early_markers_def by simp

lemma process_rest_ordinary:
  assumes "line_marker tokens l = Some m" and "m \<notin> set (structural_markers tokens)"
    and "\<not> prologue st"
  shows "process_rest opts tokens lang_name st (line_raw l) (line_text l) (line_fields l)
      (line_mi tokens l) = (passthrough tokens st l, st)"
proof -
  from assms(1) have m: "line_fields l ! line_mi tokens l = m"
    by (simp add: line_marker_SomeD)
  from assms(2) have "m \<noteq> boc tokens" "m \<noteq> eoc tokens" "m \<noteq> boe tokens" "m \<noteq> eoe tokens"
    by (auto simp: structural_markers_def)
  then show ?thesis
    unfolding process_rest_def passthrough_def m using assms(1,3) by simp
qed

lemma ordinary_line_step:
  assumes "\<not> resource st" and "\<not> prologue st" and "ordinary_line tokens l"
    and "intro st \<longrightarrow> \<not> intro_field_line tokens l"
  shows "process_line opts tokens lang_name file_basename st l = Inr (passthrough tokens st l, st)"
proof (cases "line_marker tokens l")
  case None
  then show ?thesis by (simp add: process_line_None passthrough_def)
next
  case (Some m)
  with assms(3) have s: "m \<notin> set (structural_markers tokens)"
    by (simp add: ordinary_line_def)
  from Some have len: "length (line_fields l) > line_mi tokens l"
    and m: "line_fields l ! line_mi tokens l = m"
    using line_marker_SomeD [of tokens l m] by simp_all
  from s have e: "line_fields l ! line_mi tokens l \<notin> set (early_markers tokens)"
    by (simp add: m structural_markers_def)
  from assms(4) have pi: "process_intro opts st (line_fields l) (line_mi tokens l) = None"
    by (rule process_intro_None)
  show ?thesis
    by (simp add: process_line_fields process_fields_late [OF assms(1) len e pi] assms(2)
        process_rest_ordinary [OF Some s assms(2)])
qed

lemma ordinary_lines_run:
  assumes "\<not> resource st" and "\<not> prologue st" and "\<forall>l \<in> set ls. ordinary_line tokens l"
    and "intro st \<longrightarrow> (\<forall>l \<in> set ls. \<not> intro_field_line tokens l)"
  shows "process_lines opts tokens lang_name file_basename st ls =
    Inr (concat (map (passthrough tokens st) ls), st)"
  using assms(3,4)
proof (induction ls)
  case Nil
  show ?case by simp
next
  case (Cons l ls)
  then show ?case
    by (simp add: ordinary_line_step [OF assms(1,2)])
qed


subsection \<open>Evaluating concrete runs\<close>

lemma split_ws_numeral:
  "split_ws (numeral k) s =
    (let s1 = dropWhile is_space s
     in if s1 = [] then []
        else takeWhile (\<lambda>c. \<not> is_space c) s1 #
             split_ws (pred_numeral k) (dropWhile (\<lambda>c. \<not> is_space c) s1))"
  by (simp add: numeral_eq_Suc)

lemmas line_eval = line_marker_def line_mi_def line_fields_def line_text_def line_raw_def
  lstrip_def rstrip_def rstrip_nl_def is_space_def whitespace_def marker_index_def
  split_ws_numeral fortran_tokens_def

lemmas run_eval = process_line_fields process_fields_def process_intro_def
  process_prologue_def process_rest_def process_description_def process_keyword_def
  begin_prologue_def do_beg_def do_boc_def do_eoc_def set_missing_def
  get_prologue_processors_def process_generic_def process_internal_def
  process_overloaded_def process_contained_def get_format_def strip_comment_def
  pop_marker_def split_all_def emphasized_words_def process_resource_line_def strip_def
  resource_header_def initial_state_def default_opts_def default_keys_def

subsection \<open>Resource-table mode\<close>

lemma length_split_on: "length (split_on c s) = Suc (count_list s c)"
  by (induction s) (auto split: list.splits)

text \<open>
  Claim C10. While the resource flag is set, a line changes no field of the document
  state but the resource flag itself, and it clears that flag exactly when the marker of
  the line is the resource-end marker.
\<close>

theorem resource_mode_frame:
  "resource st \<Longrightarrow>
     \<exists>out. process_line opts tokens lang_name file_basename st l =
       Inr (out, if line_marker tokens l = Some (eor tokens)
                 then st\<lparr>resource := False\<rparr> else st)"
  by (cases "line_marker tokens l")
    (auto simp: process_line_fields process_fields_def dest: line_marker_NoneD line_marker_SomeD)

theorem resource_mode_frame_witness:
  "resource (initial_state\<lparr>resource := True\<rparr>) \<and>
   (\<exists>out. process_line default_opts fortran_tokens ''fortran'' ''a.f90''
       (initial_state\<lparr>resource := True\<rparr>) ''!EOR'' = Inr (out, initial_state)) \<and>
   (\<exists>out. process_line default_opts fortran_tokens ''fortran'' ''a.f90''
       (initial_state\<lparr>resource := True\<rparr>) ''!BOP'' =
       Inr (out, initial_state\<lparr>resource := True\<rparr>))"
proof -
  have r: "resource (initial_state\<lparr>resource := True\<rparr>)"
    by simp
  have m1: "line_marker fortran_tokens ''!EOR'' = Some (eor fortran_tokens)"
    by (simp add: line_eval)
  have m2: "line_marker fortran_tokens ''!BOP'' \<noteq> Some (eor fortran_tokens)"
    by (simp add: line_eval)
  have i: "initial_state\<lparr>resource := True, resource := False\<rparr> = initial_state"
    by (simp add: initial_state_def)
  from resource_mode_frame [OF r, of default_opts fortran_tokens "''fortran''" "''a.f90''" "''!EOR''"]
  have "\<exists>out. process_line default_opts fortran_tokens ''fortran'' ''a.f90''
       (initial_state\<lparr>resource := True\<rparr>) ''!EOR'' = Inr (out, initial_state)"
    by (simp add: m1 i)
  moreover
  from resource_mode_frame [OF r, of default_opts fortran_tokens "''fortran''" "''a.f90''" "''!BOP''"]
  have "\<exists>out. process_line default_opts fortran_tokens ''fortran'' ''a.f90''
       (initial_state\<lparr>resource := True\<rparr>) ''!BOP'' =
       Inr (out, initial_state\<lparr>resource := True\<rparr>)"
    by (simp add: m2)
  ultimately show ?thesis using r by blast
qed

text \<open>
  Claim C6, as stated, fails on a line that holds the bare comment symbol only: it is
  not empty and is not the resource-end marker, yet the loop skips it before it looks at
  the resource flag, where a row of fewer than four fields would be printed unchanged.
\<close>

theorem resource_bare_comment_skipped:
  "line_text ''!'' \<noteq> [] \<and>
   line_marker fortran_tokens ''!'' \<noteq> Some (eor fortran_tokens) \<and>
   process_line default_opts fortran_tokens ''fortran'' ''a.f90''
     (initial_state\<lparr>resource := True\<rparr>) ''!'' = Inr ([], initial_state\<lparr>resource := True\<rparr>) \<and>
   process_resource_line (line_text ''!'') = [''!'']"
  by (simp add: line_eval run_eval split_on.simps)

text \<open>
  Claim C6, amended. While resource-table mode is active, a line without a marker token
  (a blank line, or the bare comment symbol alone) prints nothing; a line whose marker
  token is the resource-end marker prints nothing and closes the mode; every other line
  is a literal row, whatever its marker token is: with at least four comma-separated
  fields (three commas) the stripped line gives a formatted table row of its first four
  stripped fields followed by a rule, with fewer it is printed as it is, without the
  surrounding whitespace.
\<close>

theorem resource_mode_rows:
  assumes "resource st"
  shows "process_line opts tokens lang_name file_basename st l =
    (case line_marker tokens l of
       None \<Rightarrow> Inr ([], st)
     | Some m \<Rightarrow>
        if m = eor tokens then Inr ([], st\<lparr>resource := False\<rparr>)
        else if 3 \<le> count_list (line_text l) CHR '',''
        then Inr ([resource_row (map strip (split_on CHR '','' (line_text l))), BS @ ''hline''], st)
        else Inr ([line_text l], st))"
proof (cases "line_marker tokens l")
  case None
  then show ?thesis by (simp add: process_line_None)
next
  case (Some m)
  have c: "4 \<le> length (split_on CHR '','' (line_text l)) \<longleftrightarrow>
      3 \<le> count_list (line_text l) CHR '',''"
    by (simp add: length_split_on)
  from Some assms show ?thesis
    using line_marker_SomeD [OF Some]
    by (simp add: process_line_fields process_fields_def process_resource_line_def
        resource_row_def Let_def c)
qed

theorem resource_mode_rows_witness:
  "resource (initial_state\<lparr>resource := True\<rparr>) \<and>
   process_line default_opts fortran_tokens ''fortran'' ''a.f90''
     (initial_state\<lparr>resource := True\<rparr>) ''!BOP a, b ,c,d,e'' =
     Inr ([BS @ ''makebox[1.0in][l]{!BOP a} & '' @ BS @ ''makebox[3.5in][l]{b} & '' @
           BS @ ''makebox[1.0in][l]{c} & '' @ BS @ ''makebox[1.0in][l]{d} '' @ BS @ BS,
           BS @ ''hline''], initial_state\<lparr>resource := True\<rparr>) \<and>
   process_line default_opts fortran_tokens ''fortran'' ''a.f90''
     (initial_state\<lparr>resource := True\<rparr>) ''  x, y '' =
     Inr ([''x, y''], initial_state\<lparr>resource := True\<rparr>)"
proof -
  have r: "resource (initial_state\<lparr>resource := True\<rparr>)"
    by simp
  have m1: "line_marker fortran_tokens ''!BOP a, b ,c,d,e'' = Some ''!BOP''"
    and t1: "line_text ''!BOP a, b ,c,d,e'' = ''!BOP a, b ,c,d,e''"
    and m2: "line_marker fortran_tokens ''  x, y '' = Some ''x,''"
    and t2: "line_text ''  x, y '' = ''x, y''"
    by (simp_all add: line_eval)
  have e: "eor fortran_tokens = ''!EOR''"
    by (simp add: fortran_tokens_def)
  show ?thesis
    using r resource_mode_rows [OF r, of default_opts fortran_tokens "''fortran''" "''a.f90''"
        "''!BOP a, b ,c,d,e''"]
      resource_mode_rows [OF r, of default_opts fortran_tokens "''fortran''" "''a.f90''"
        "''  x, y ''"]
    by (simp add: m1 t1 m2 t2 e resource_row_def strip_def lstrip_def rstrip_def is_space_def
        whitespace_def)
qed

subsection \<open>Internal prologues\<close>

lemma marker_fieldsD:
  assumes "line_marker tokens l = Some m"
  shows "length (line_fields l) > line_mi tokens l" and "line_fields l ! line_mi tokens l = m"
  using line_marker_SomeD [OF assms] by simp_all

lemma bopi_internal_step:
  assumes "get_language_tokens lang = Inr tokens" and "opt_internal opts" and "\<not> resource st"
    and "line_marker tokens l = Some (bopi tokens)"
    and "intro st \<longrightarrow> \<not> intro_field_line tokens l"
  shows "process_line opts tokens lang_name file_basename st l = Inr ([], st\<lparr>prologue := False\<rparr>)"
proof -
  from tokens_distinct [OF assms(1)]
  have d: "bopi tokens \<noteq> ''!QUOTE:''" "bopi tokens \<noteq> boi tokens" "bopi tokens \<noteq> eoi tokens"
    "bopi tokens \<noteq> bor tokens" "bopi tokens \<noteq> bop tokens"
    by auto
  from assms(5) have pi: "process_intro opts st (line_fields l) (line_mi tokens l) = None"
    by (rule process_intro_None)
  show ?thesis
    using marker_fieldsD [OF assms(4)] assms(2,3) d
    by (simp add: process_line_fields process_fields_def pi)
qed

text \<open>The definitions that a concrete line needs unfolded.\<close>

lemmas marker_eval = ordinary_line_def structural_markers_def early_markers_def
  intro_field_line_def prologue_field_line_def primary_token_def passthrough_def

text \<open>
  Claim C3, amended. With internal mode enabled and the marker set of a supported
  language, a \<^verbatim>\<open>!BOPI\<close> marker line that is met outside resource-table mode, with
  neither an introduction nor a source region open, prints nothing and only clears the
  prologue flag: no prologue is entered. Each following line that has no marker token, or
  whose marker token is none of \<^verbatim>\<open>!QUOTE:\<close>, \<^verbatim>\<open>BOI\<close>, \<^verbatim>\<open>EOI\<close>, \<^verbatim>\<open>BOR\<close>, \<^verbatim>\<open>BOP\<close>, \<^verbatim>\<open>BOPI\<close>, \<^verbatim>\<open>BOC\<close>, \<^verbatim>\<open>EOC\<close>, \<^verbatim>\<open>BOE\<close> and \<^verbatim>\<open>EOE\<close>
  (the \<^verbatim>\<open>!EOPI\<close> line and the field lines of the prologue are such lines) then prints
  nothing and changes no state: the internal prologue is omitted from the output. What
  happens while an introduction or a source region is open is not part of the statement.
\<close>

theorem internal_prologue_omitted:
  assumes "get_language_tokens lang = Inr tokens" and "opt_internal opts"
    and "\<not> resource st" and "\<not> intro st" and "\<not> source st"
    and "line_marker tokens l0 = Some (bopi tokens)"
    and "\<forall>l \<in> set body. ordinary_line tokens l"
  shows "process_line opts tokens lang_name file_basename st l0 =
           Inr ([], st\<lparr>prologue := False\<rparr>) \<and>
         process_lines opts tokens lang_name file_basename st (l0 # body) =
           Inr ([], st\<lparr>prologue := False\<rparr>)"
proof -
  let ?st = "st\<lparr>prologue := False\<rparr>"
  have step: "process_line opts tokens lang_name file_basename st l0 = Inr ([], ?st)"
    using assms(1,2,3,6) assms(4) by (intro bopi_internal_step) simp_all
  have "process_lines opts tokens lang_name file_basename ?st body =
      Inr (concat (map (passthrough tokens ?st) body), ?st)"
    using assms(3,4,7) by (intro ordinary_lines_run) simp_all
  moreover have "concat (map (passthrough tokens ?st) body) = []"
    using assms(4,5) by (auto simp: passthrough_def)
  ultimately have "process_lines opts tokens lang_name file_basename ?st body = Inr ([], ?st)"
    by simp
  with step show ?thesis by simp
qed

theorem internal_prologue_omitted_witness:
  "get_language_tokens ''F'' = Inr fortran_tokens \<and>
   opt_internal (default_opts\<lparr>opt_internal := True\<rparr>) \<and>
   \<not> resource (initial_state\<lparr>prologue := True\<rparr>) \<and>
   \<not> intro (initial_state\<lparr>prologue := True\<rparr>) \<and>
   \<not> source (initial_state\<lparr>prologue := True\<rparr>) \<and>
   line_marker fortran_tokens ''!BOPI'' = Some (bopi fortran_tokens) \<and>
   list_all (ordinary_line fortran_tokens) [''! !ROUTINE: helper'', '''', ''!EOPI''] \<and>
   process_lines (default_opts\<lparr>opt_internal := True\<rparr>) fortran_tokens ''fortran'' ''a.f90''
     (initial_state\<lparr>prologue := True\<rparr>) [''!BOPI'', ''! !ROUTINE: helper'', '''', ''!EOPI''] =
     Inr ([], initial_state)"
proof -
  let ?st = "initial_state\<lparr>prologue := True\<rparr>"
  have h1: "get_language_tokens ''F'' = Inr fortran_tokens"
    by (rule fortran_tokens_eq)
  have h2: "opt_internal (default_opts\<lparr>opt_internal := True\<rparr>)"
    by simp
  have h3: "\<not> resource ?st" and h4: "\<not> intro ?st" and h5: "\<not> source ?st"
    by (simp_all add: initial_state_def)
  have h6: "line_marker fortran_tokens ''!BOPI'' = Some (bopi fortran_tokens)"
    by (simp add: line_eval)
  have h7: "\<forall>l \<in> set [''! !ROUTINE: helper'', '''', ''!EOPI'']. ordinary_line fortran_tokens l"
    by (simp add: marker_eval line_eval)
  have s: "?st\<lparr>prologue := False\<rparr> = initial_state"
    by (simp add: initial_state_def)
  have r: "process_lines (default_opts\<lparr>opt_internal := True\<rparr>) fortran_tokens ''fortran''
      ''a.f90'' ?st [''!BOPI'', ''! !ROUTINE: helper'', '''', ''!EOPI''] = Inr ([], initial_state)"
    using internal_prologue_omitted [OF h1 h2 h3 h4 h5 h6 h7, of "''fortran''" "''a.f90''"]
    unfolding s by (rule conjunct2)
  have l: "list_all (ordinary_line fortran_tokens) [''! !ROUTINE: helper'', '''', ''!EOPI'']"
    using h7 by (simp only: list_all_iff)
  show ?thesis
    by (intro conjI h1 h2 h3 h4 h5 h6 l r)
qed

text \<open>
  Claim C3, as stated, fails: from the initial state the line between \<^verbatim>\<open>!BOPI\<close> and
  \<^verbatim>\<open>!EOPI\<close> is not passed through to the output as ordinary text, the run prints
  nothing.
\<close>

theorem internal_prologue_body_dropped:
  "process_lines (default_opts\<lparr>opt_internal := True\<rparr>) fortran_tokens ''fortran'' ''a.f90''
     initial_state [''!BOPI'', ''hello'', ''!EOPI''] = Inr ([], initial_state)"
  by (simp add: run_eval line_eval)

subsection \<open>Shut-up mode\<close>

lemma process_lines_append:
  "process_lines opts tokens lang_name file_basename st (xs @ ys) =
    (case process_lines opts tokens lang_name file_basename st xs of
       Inl e \<Rightarrow> Inl e
     | Inr (out1, st1) \<Rightarrow>
        (case process_lines opts tokens lang_name file_basename st1 ys of
           Inl e \<Rightarrow> Inl e
         | Inr (out2, st2) \<Rightarrow> Inr (out1 @ out2, st2)))"
  by (induction xs arbitrary: st) (auto split: sum.splits)

lemma late_marker_step:
  assumes "get_language_tokens lang = Inr tokens" and "\<not> resource st"
    and "line_marker tokens l = Some m"
    and "m \<in> set [boc tokens, eoc tokens, boe tokens, eoe tokens]"
    and "intro st \<longrightarrow> \<not> intro_field_line tokens l"
    and "prologue st \<longrightarrow> \<not> prologue_field_line opts l"
  shows "process_line opts tokens lang_name file_basename st l =
    Inr (process_rest opts tokens lang_name st (line_raw l) (line_text l) (line_fields l)
          (line_mi tokens l))"
proof -
  from tokens_distinct [OF assms(1)] assms(4)
  have e: "m \<notin> set (early_markers tokens)" and p: "m \<noteq> eop tokens" "m \<noteq> eopi tokens"
    by (auto simp: early_markers_def)
  note f = marker_fieldsD [OF assms(3)]
  from e f(2) have e': "line_fields l ! line_mi tokens l \<notin> set (early_markers tokens)"
    by simp
  from assms(5) have pi: "process_intro opts st (line_fields l) (line_mi tokens l) = None"
    by (rule process_intro_None)
  show ?thesis
  proof (cases "prologue st")
    case True
    with assms(6) have "\<not> prologue_field_line opts l" by simp
    from process_prologue_no_field [OF this assms(3)] p True show ?thesis
      by (simp add: process_line_fields process_fields_late [OF assms(2) f(1) e' pi])
  next
    case False
    then show ?thesis
      by (simp add: process_line_fields process_fields_late [OF assms(2) f(1) e' pi])
  qed
qed

lemma boc_shut_up_step:
  assumes "get_language_tokens lang = Inr tokens" and "opt_s opts" and "\<not> resource st"
    and "line_marker tokens l = Some (boc tokens)"
    and "intro st \<longrightarrow> \<not> intro_field_line tokens l"
    and "prologue st \<longrightarrow> \<not> prologue_field_line opts l"
  shows "process_line opts tokens lang_name file_basename st l = Inr ([], st\<lparr>prologue := False\<rparr>)"
  using late_marker_step [OF assms(1,3,4) _ assms(5,6)] marker_fieldsD(2) [OF assms(4)] assms(2)
  by (simp add: process_rest_def)

lemma eoc_step:
  assumes "get_language_tokens lang = Inr tokens" and "\<not> resource st"
    and "line_marker tokens l = Some (eoc tokens)"
    and "intro st \<longrightarrow> \<not> intro_field_line tokens l"
    and "prologue st \<longrightarrow> \<not> prologue_field_line opts l"
  shows "process_line opts tokens lang_name file_basename st l = Inr (do_eoc st)"
proof -
  from tokens_distinct [OF assms(1)] have "eoc tokens \<noteq> boc tokens" by auto
  with late_marker_step [OF assms(1,2,3) _ assms(4,5)] marker_fieldsD(2) [OF assms(3)]
  show ?thesis by (simp add: process_rest_def)
qed

text \<open>
  Where shut-up mode does what the header of the source says (\<open>ignore any code from BOC to
  EOC\<close>): outside resource-table mode, with neither an introduction nor a source region
  open, a code-begin marker line that is no field line of an open prologue prints nothing
  and only clears the prologue flag, the following lines without a structural marker
  print nothing, and the code-end marker line closes what verbatim block the prologue
  had left open and prints the end-of-code banner.
\<close>

lemma shut_up_code_suppressed:
  assumes "get_language_tokens lang = Inr tokens" and "opt_s opts" and "\<not> resource st"
    and "\<not> intro st" and "\<not> source st"
    and "line_marker tokens l0 = Some (boc tokens)"
    and "prologue st \<longrightarrow> \<not> prologue_field_line opts l0"
    and "\<forall>l \<in> set body. ordinary_line tokens l"
    and "line_marker tokens l1 = Some (eoc tokens)"
  shows "process_line opts tokens lang_name file_basename st l0 = Inr ([], st\<lparr>prologue := False\<rparr>) \<and>
    process_lines opts tokens lang_name file_basename st (l0 # body) =
      Inr ([], st\<lparr>prologue := False\<rparr>) \<and>
    process_lines opts tokens lang_name file_basename st (l0 # body @ [l1]) =
      Inr ((if verb st then [BS @ ''end{minted}''] else []) @ [end_code_banner],
           st\<lparr>prologue := False, verb := False, source := False\<rparr>)"
proof -
  let ?st = "st\<lparr>prologue := False\<rparr>"
  have step: "process_line opts tokens lang_name file_basename st l0 = Inr ([], ?st)"
    using assms(1,2,3,6) assms(4,7) by (intro boc_shut_up_step) simp_all
  have "process_lines opts tokens lang_name file_basename ?st body =
      Inr (concat (map (passthrough tokens ?st) body), ?st)"
    using assms(3,4,8) by (intro ordinary_lines_run) simp_all
  moreover have "concat (map (passthrough tokens ?st) body) = []"
    using assms(4,5) by (auto simp: passthrough_def)
  ultimately have run: "process_lines opts tokens lang_name file_basename ?st body = Inr ([], ?st)"
    by simp
  have last: "process_line opts tokens lang_name file_basename ?st l1 = Inr (do_eoc ?st)"
    using assms(1,3,9,4) by (intro eoc_step) simp_all
  have eoc: "do_eoc ?st = ((if verb st then [BS @ ''end{minted}''] else []) @ [end_code_banner],
      st\<lparr>prologue := False, verb := False, source := False\<rparr>)"
    using assms(5) by (simp add: do_eoc_def end_code_banner_def)
  from step run have both: "process_lines opts tokens lang_name file_basename st (l0 # body) =
      Inr ([], ?st)"
    by simp
  have "process_lines opts tokens lang_name file_basename st ((l0 # body) @ [l1]) =
      Inr ((if verb st then [BS @ ''end{minted}''] else []) @ [end_code_banner],
           st\<lparr>prologue := False, verb := False, source := False\<rparr>)"
    unfolding process_lines_append both by (simp add: last eoc)
  with step both show ?thesis by simp
qed

lemma shut_up_code_suppressed_example:
  "get_language_tokens ''F'' = Inr fortran_tokens \<and>
   opt_s (default_opts\<lparr>opt_s := True\<rparr>) \<and>
   \<not> resource (initial_state\<lparr>prologue := True, verb := True\<rparr>) \<and>
   \<not> intro (initial_state\<lparr>prologue := True, verb := True\<rparr>) \<and>
   \<not> source (initial_state\<lparr>prologue := True, verb := True\<rparr>) \<and>
   line_marker fortran_tokens ''!BOC'' = Some (boc fortran_tokens) \<and>
   prologue (initial_state\<lparr>prologue := True, verb := True\<rparr>) \<and>
   \<not> prologue_field_line (default_opts\<lparr>opt_s := True\<rparr>) ''!BOC'' \<and>
   list_all (ordinary_line fortran_tokens) [''  x = 1'', ''  call foo(x)''] \<and>
   line_marker fortran_tokens ''!EOC'' = Some (eoc fortran_tokens) \<and>
   process_lines (default_opts\<lparr>opt_s := True\<rparr>) fortran_tokens ''fortran'' ''a.f90''
     (initial_state\<lparr>prologue := True, verb := True\<rparr>)
     [''!BOC'', ''  x = 1'', ''  call foo(x)'', ''!EOC''] =
     Inr ([BS @ ''end{minted}'', end_code_banner], initial_state)"
proof -
  let ?st = "initial_state\<lparr>prologue := True, verb := True\<rparr>"
  let ?opts = "default_opts\<lparr>opt_s := True\<rparr>"
  have h1: "get_language_tokens ''F'' = Inr fortran_tokens"
    by (rule fortran_tokens_eq)
  have h2: "opt_s ?opts"
    by simp
  have h3: "\<not> resource ?st" and h4: "\<not> intro ?st" and h5: "\<not> source ?st"
    by (simp_all add: initial_state_def)
  have h6: "line_marker fortran_tokens ''!BOC'' = Some (boc fortran_tokens)"
    by (simp add: line_eval)
  have h7': "\<not> prologue_field_line ?opts ''!BOC''"
    by (simp add: marker_eval line_eval get_prologue_processors_def default_opts_def
        default_keys_def)
  then have h7: "prologue ?st \<longrightarrow> \<not> prologue_field_line ?opts ''!BOC''"
    by simp
  have h8: "\<forall>l \<in> set [''  x = 1'', ''  call foo(x)'']. ordinary_line fortran_tokens l"
    by (simp add: marker_eval line_eval)
  have h9: "line_marker fortran_tokens ''!EOC'' = Some (eoc fortran_tokens)"
    by (simp add: line_eval)
  from shut_up_code_suppressed [OF h1 h2 h3 h4 h5 h6 h7 h8 h9, of "''fortran''" "''a.f90''"]
  have "process_lines ?opts fortran_tokens ''fortran'' ''a.f90'' ?st
     [''!BOC'', ''  x = 1'', ''  call foo(x)'', ''!EOC''] =
     Inr ([BS @ ''end{minted}'', end_code_banner], initial_state)"
    by (simp add: initial_state_def del: process_lines.simps)
  moreover have "list_all (ordinary_line fortran_tokens) [''  x = 1'', ''  call foo(x)'']"
    using h8 by (simp only: list_all_iff)
  moreover have "prologue ?st"
    by simp
  ultimately show ?thesis using h1 h2 h3 h4 h5 h6 h7' h9 by blast
qed

text \<open>
  Claim C8 at the failing input. The claim, like the header of the source, says that in
  shut-up mode the lines between \<^verbatim>\<open>!BOC\<close> and \<^verbatim>\<open>!EOC\<close> do not appear in the output. After
  an introduction that was opened and not closed the code prints them: the run of
  \<^verbatim>\<open>!BOI\<close>, \<^verbatim>\<open>!BOC\<close>, \<^verbatim>\<open>x = 1\<close>, \<^verbatim>\<open>!EOC\<close> from the initial state prints \<^verbatim>\<open>x = 1\<close> as
  introduction text, then the end-of-code banner.
\<close>

theorem shut_up_code_printed_in_introduction:
  "process_lines (default_opts\<lparr>opt_s := True\<rparr>) fortran_tokens ''fortran'' ''a.f90''
     initial_state [''!BOI'', ''!BOC'', ''x = 1'', ''!EOC''] =
   Inr ([''x = 1'', end_code_banner], initial_state\<lparr>intro := True\<rparr>)"
  by (simp add: run_eval line_eval end_code_banner_def)

subsection \<open>Closing what is closed\<close>

text \<open>
  Claim C5, amended. Take the marker set of a supported language, a state outside
  resource-table mode, and a line that no earlier branch of the loop takes: its field
  after the marker is none of \<^verbatim>\<open>!TITLE:\<close>, \<^verbatim>\<open>!AUTHORS:\<close>, \<^verbatim>\<open>!AFFILIATION:\<close>, \<^verbatim>\<open>!DATE:\<close>,
  \<^verbatim>\<open>!INTRODUCTION:\<close> while an introduction is open, and it is no primary-marker,
  description or keyword line while a prologue is open. Then (a) a code-end marker line
  met while no verbatim block is open prints no verbatim-end delimiter: it prints the
  end-of-code banner alone and clears the source flag; (b) a prologue-end marker line
  (\<^verbatim>\<open>EOP\<close> or \<^verbatim>\<open>EOPI\<close>) met while no prologue is open prints no close fragment and leaves
  the state as it is: it prints nothing outside every region, the stripped line without
  its leading comment symbol inside an introduction, and the line without its trailing
  whitespace inside a source region.
\<close>

theorem closing_closed_region:
  assumes "get_language_tokens lang = Inr tokens" and "\<not> resource st"
    and "intro st \<longrightarrow> \<not> intro_field_line tokens l"
    and "prologue st \<longrightarrow> \<not> prologue_field_line opts l"
  shows "(line_marker tokens l = Some (eoc tokens) \<and> \<not> verb st \<longrightarrow>
            process_line opts tokens lang_name file_basename st l =
              Inr ([end_code_banner], st\<lparr>source := False\<rparr>)) \<and>
         ((line_marker tokens l = Some (eop tokens) \<or> line_marker tokens l = Some (eopi tokens)) \<and>
            \<not> prologue st \<longrightarrow>
            process_line opts tokens lang_name file_basename st l =
              Inr (if intro st then [strip_comment tokens (line_text l)]
                   else if source st then [line_raw l]
                   else [], st))"
proof (intro conjI impI)
  assume a: "line_marker tokens l = Some (eoc tokens) \<and> \<not> verb st"
  then have "process_line opts tokens lang_name file_basename st l = Inr (do_eoc st)"
    using assms by (intro eoc_step) simp_all
  with a show "process_line opts tokens lang_name file_basename st l =
      Inr ([end_code_banner], st\<lparr>source := False\<rparr>)"
    by (simp add: do_eoc_def end_code_banner_def)
next
  assume a: "(line_marker tokens l = Some (eop tokens) \<or> line_marker tokens l = Some (eopi tokens)) \<and>
      \<not> prologue st"
  from tokens_distinct [OF assms(1)]
  have "eop tokens \<notin> set (structural_markers tokens)"
    and "eopi tokens \<notin> set (structural_markers tokens)"
    by (auto simp: structural_markers_def early_markers_def)
  with a have o: "ordinary_line tokens l"
    by (auto simp: ordinary_line_def)
  from a have "line_marker tokens l \<noteq> None" by auto
  with a ordinary_line_step [OF assms(2) _ o assms(3), of opts lang_name file_basename]
  show "process_line opts tokens lang_name file_basename st l =
      Inr (if intro st then [strip_comment tokens (line_text l)]
           else if source st then [line_raw l]
           else [], st)"
    by (simp add: passthrough_def)
qed

theorem closing_closed_region_witness:
  "get_language_tokens ''F'' = Inr fortran_tokens \<and> \<not> resource initial_state \<and>
   \<not> intro initial_state \<and>
   line_marker fortran_tokens ''!EOC'' = Some (eoc fortran_tokens) \<and> \<not> verb initial_state \<and>
   process_line default_opts fortran_tokens ''fortran'' ''a.f90'' initial_state ''!EOC'' =
     Inr ([end_code_banner], initial_state) \<and>
   line_marker fortran_tokens ''!EOP'' = Some (eop fortran_tokens) \<and> \<not> prologue initial_state \<and>
   process_line default_opts fortran_tokens ''fortran'' ''a.f90'' initial_state ''!EOP'' =
     Inr ([], initial_state)"
proof -
  have h1: "get_language_tokens ''F'' = Inr fortran_tokens"
    by (rule fortran_tokens_eq)
  have h2: "\<not> resource initial_state" and v: "\<not> verb initial_state"
    and p: "\<not> prologue initial_state" and i: "\<not> intro initial_state"
    and s: "\<not> source initial_state"
    by (simp_all add: initial_state_def)
  have h3: "intro initial_state \<longrightarrow> \<not> intro_field_line fortran_tokens ''!EOC''"
    and h4: "prologue initial_state \<longrightarrow> \<not> prologue_field_line default_opts ''!EOC''"
    and h3': "intro initial_state \<longrightarrow> \<not> intro_field_line fortran_tokens ''!EOP''"
    and h4': "prologue initial_state \<longrightarrow> \<not> prologue_field_line default_opts ''!EOP''"
    using p i by simp_all
  have m1: "line_marker fortran_tokens ''!EOC'' = Some (eoc fortran_tokens)"
    and m2: "line_marker fortran_tokens ''!EOP'' = Some (eop fortran_tokens)"
    by (simp_all add: line_eval)
  have u: "initial_state\<lparr>source := False\<rparr> = initial_state"
    by (simp add: initial_state_def)
  from closing_closed_region [OF h1 h2 h3 h4, of "''fortran''" "''a.f90''"] m1 v
  have r1: "process_line default_opts fortran_tokens ''fortran'' ''a.f90'' initial_state ''!EOC'' =
     Inr ([end_code_banner], initial_state)"
    by (simp add: u)
  from closing_closed_region [OF h1 h2 h3' h4', of "''fortran''" "''a.f90''"] m2 p i s
  have r2: "process_line default_opts fortran_tokens ''fortran'' ''a.f90'' initial_state ''!EOP'' =
     Inr ([], initial_state)"
    by simp
  from h1 h2 i m1 v r1 m2 p r2 show ?thesis by blast
qed

text \<open>
  Claim C5, as stated, fails for the code-end marker: with no verbatim or code region
  open it is no no-op on the output, the end-of-code banner is printed, and a second
  \<^verbatim>\<open>!EOC\<close> prints that close fragment a second time.
\<close>

theorem closing_closed_code_prints_banner:
  "\<not> verb initial_state \<and> \<not> source initial_state \<and>
   process_line default_opts fortran_tokens ''fortran'' ''a.f90'' initial_state ''!EOC'' =
     Inr ([end_code_banner], initial_state) \<and>
   process_lines default_opts fortran_tokens ''fortran'' ''a.f90'' initial_state
     [''!BOC'', ''!EOC'', ''!EOC''] =
     Inr ([NL @ '' %------------------ START CODE ------------------%'',
           BS @ ''begin{minted}[breaklines,breakafter=-+*/&]{fortran}'',
           BS @ ''end{minted}'', end_code_banner, end_code_banner],
          initial_state\<lparr>first := False\<rparr>)"
  by (simp add: run_eval line_eval end_code_banner_def)

subsection \<open>Field lines of a prologue\<close>















subsection \<open>The heading of a function\<close>


subsection \<open>The document begins once\<close>




lemma do_boc_begdoc: "begdoc (snd (do_boc st lang_name)) = begdoc st"
  by (simp add: do_boc_def)
































end
